theory Spec2Isabelle
  imports Main
begin

section \<open>Strings, runes and the library functions the dispatchers call\<close>

text \<open>
  A Go string is modelled by the sequence of Unicode code points that ranging over it
  yields (the string is valid UTF-8, so the sequence determines the string). A rune is a
  code point, a natural number. \<open>str\<close> turns a literal of ASCII characters into such a
  string.
\<close>

type_synonym rune = nat
type_synonym gostring = "rune list"

abbreviation (input) str :: "string \<Rightarrow> gostring" where
  "str s \<equiv> map of_char s"

text \<open>
  \<^verbatim>\<open>unicode.IsSpace\<close>: in Latin-1 the eight characters tab, newline, vertical tab, form
  feed, carriage return, space, U+0085 and U+00A0; above Latin-1 the code points with
  the White_Space property.
\<close>

definition IsSpace :: "rune \<Rightarrow> bool" where
  "IsSpace r =
     (if r \<le> 255 then r \<in> {9, 10, 11, 12, 13, 32, 133, 160}
      else r = 5760 \<or> (8192 \<le> r \<and> r \<le> 8202) \<or> r = 8232 \<or> r = 8233
         \<or> r = 8239 \<or> r = 8287 \<or> r = 12288)"

text \<open>
  \<^verbatim>\<open>unicode.IsGraphic\<close>: letters, marks, numbers, punctuation, symbols and spaces
  (category Zs). In Latin-1 the library reads a fixed table: U+0020 to U+007E and
  U+00A0 to U+00FF without the soft hyphen U+00AD. Above Latin-1 it searches the range
  tables of those categories; that search is the parameter \<open>inGraphicRanges\<close>.
\<close>

definition IsGraphic :: "(rune \<Rightarrow> bool) \<Rightarrow> rune \<Rightarrow> bool" where
  "IsGraphic inGraphicRanges r =
     (if r \<le> 255 then (32 \<le> r \<and> r \<le> 126) \<or> (160 \<le> r \<and> r \<noteq> 173)
      else inGraphicRanges r)"

text \<open>
  \<^verbatim>\<open>strings.IndexFunc(s, f)\<close>: the index of the first code point satisfying \<open>f\<close>, or
  \<open>-1\<close>. The loop counts positions in code points here (Go counts bytes); the callers
  only compare the result with \<open>0\<close> and \<open>-1\<close>.
\<close>

fun indexFunc :: "gostring \<Rightarrow> (rune \<Rightarrow> bool) \<Rightarrow> nat \<Rightarrow> int" where
  "indexFunc [] f i = - 1"
| "indexFunc (r # s) f i = (if f r then int i else indexFunc s f (Suc i))"

definition IndexFunc :: "gostring \<Rightarrow> (rune \<Rightarrow> bool) \<Rightarrow> int" where
  "IndexFunc s f = indexFunc s f 0"

text \<open>\<^verbatim>\<open>strings.ContainsAny(s, chars)\<close>: whether any code point of \<open>chars\<close> is in \<open>s\<close>.\<close>

fun ContainsAny :: "gostring \<Rightarrow> gostring \<Rightarrow> bool" where
  "ContainsAny [] chars = False"
| "ContainsAny (r # s) chars = (if r \<in> set chars then True else ContainsAny s chars)"

text \<open>\<^verbatim>\<open>strings.Join(elems, sep)\<close>.\<close>

fun Join :: "gostring list \<Rightarrow> gostring \<Rightarrow> gostring" where
  "Join [] sep = []"
| "Join [e] sep = e"
| "Join (e # es) sep = e @ sep @ Join es sep"

section \<open>Errors and panics\<close>

text \<open>
  One constructor for each error value the two packages build; the comment gives the
  source's message. \<open>Err\<close> is any other error, made by code outside these files (the
  argument binder, a command function, a body converter, a results writer), named by its
  message.
\<close>

datatype error =
    ErrNotFound
      \<comment> \<open>\<^verbatim>\<open>constError("command not found")\<close>\<close>
  | SuperCommandNotFound gostring
      \<comment> \<open>\<^verbatim>\<open>SuperCommandNotFound(superCommand)\<close>\<close>
  | ErrSpaceCharacters gostring
      \<comment> \<open>\<^verbatim>\<open>"command contains space characters: '%s'"\<close>\<close>
  | ErrNonGraphic gostring
      \<comment> \<open>\<^verbatim>\<open>"command contains non graphc characters: '%s'"\<close>\<close>
  | ErrInvalidCharacters gostring
      \<comment> \<open>\<^verbatim>\<open>"command contains invalid characters: '%s'"\<close>\<close>
  | ErrAlreadyAdded gostring
      \<comment> \<open>\<^verbatim>\<open>"Command '%s' already added"\<close>\<close>
  | ErrCommandReturned gostring error
      \<comment> \<open>\<^verbatim>\<open>"Command '%s' returned: %w"\<close>\<close>
  | ErrDefaultCommand error
      \<comment> \<open>\<^verbatim>\<open>"Default command: %w"\<close>\<close>
  | ErrCommand gostring error
      \<comment> \<open>\<^verbatim>\<open>"Command '%s': %w"\<close>\<close>
  | ErrSuperAlreadyAdded gostring
      \<comment> \<open>\<^verbatim>\<open>"super command already added: '%s'"\<close>\<close>
  | ErrMustAddSuperCommand gostring error
      \<comment> \<open>\<^verbatim>\<open>"MustAddSuperCommand(%s): %w"\<close>\<close>
  | ErrMustAddDefaultCommand gostring error
      \<comment> \<open>\<^verbatim>\<open>"MustAddDefaultCommand(%s): %w"\<close>\<close>
  | ErrMustDispatchCombined "gostring list" error
      \<comment> \<open>\<^verbatim>\<open>"MustDispatchCombinedCommandAndArgs(%v): %w"\<close>\<close>
  | ErrArgAlreadySet gostring
      \<comment> \<open>\<^verbatim>\<open>"argument '%s' already set by request URL path"\<close>\<close>
  | Err gostring

text \<open>A call either returns or panics; \<open>Panic e\<close> is \<^verbatim>\<open>panic(e)\<close>.\<close>

datatype 'a outcome = is_Panic: Panic error | Return 'a

section \<open>Command names\<close>

definition checkCommandChars :: "(rune \<Rightarrow> bool) \<Rightarrow> gostring \<Rightarrow> error option" where
  "checkCommandChars inGraphicRanges command =
     (if IndexFunc command IsSpace \<ge> 0 then Some (ErrSpaceCharacters command)
      else if IndexFunc command (IsGraphic inGraphicRanges) = - 1 then Some (ErrNonGraphic command)
      else if ContainsAny command (str ''|&;()<>'') then Some (ErrInvalidCharacters command)
      else None)"

section \<open>Loggers, bound invokers and the calls a dispatch makes\<close>

text \<open>
  A \<^verbatim>\<open>context.Context\<close> is passed through untouched; \<open>Background\<close> is
  \<^verbatim>\<open>context.Background()\<close>, \<open>Ctx n\<close> any other context.
\<close>

datatype Context = Background | Ctx nat

text \<open>
  Loggers and bound invokers are code of the caller: they read and write a state \<open>'u\<close>
  of their own, a logger returns nothing, an invoker returns an error or nil. The world
  a dispatch runs in is that state together with the list of calls made so far, oldest
  first (the record is shared with the HTTP adapter below, which makes other calls):
  \<open>LoggerCall i command args\<close> is \<^verbatim>\<open>disp.loggers[i].LogStringArgsCommand(command,
  args)\<close>, and \<open>StringArgsFuncCall name ctx args\<close> is the call \<^verbatim>\<open>cmd.stringArgsFunc(ctx,
  args...)\<close> of the entry whose \<^verbatim>\<open>command\<close> field is \<open>name\<close>. Only \<open>LogStringArgsCommand\<close>
  and \<open>call_stringArgsFunc\<close> below extend the list, as they make the call.
\<close>

type_synonym 'u StringArgsCommandLogger = "gostring \<Rightarrow> gostring list \<Rightarrow> 'u \<Rightarrow> 'u"
type_synonym 'u StringArgsFunc = "Context \<Rightarrow> gostring list \<Rightarrow> 'u \<Rightarrow> error option \<times> 'u"

datatype call =
    LoggerCall nat gostring "gostring list"
  | StringArgsFuncCall gostring Context "gostring list"

record ('c, 'u) world =
  calls :: "'c list"
  user :: 'u

definition LogStringArgsCommand ::
  "nat \<Rightarrow> 'u StringArgsCommandLogger \<Rightarrow> gostring \<Rightarrow> gostring list \<Rightarrow> (call, 'u) world \<Rightarrow> (call, 'u) world" where
  "LogStringArgsCommand i logger command args w =
     \<lparr>calls = calls w @ [LoggerCall i command args], user = logger command args (user w)\<rparr>"

section \<open>StringArgsDispatcher\<close>

text \<open>
  The fields of \<^verbatim>\<open>stringArgsCommand\<close>, prefixed with \<open>c_\<close> (the plain names are the
  parameters of the methods). \<^verbatim>\<open>Args\<close>, the command function and the results handlers
  are opaque values of types \<open>'a\<close>, \<open>'f\<close> and \<open>'h\<close>.
\<close>

record ('a, 'f, 'h, 'u) stringArgsCommand =
  c_command :: gostring
  c_description :: gostring
  c_args :: 'a
  c_commandFunc :: 'f
  c_stringArgsFunc :: "'u StringArgsFunc"
  c_resultsHandlers :: "'h list"

record ('a, 'f, 'h, 'u) StringArgsDispatcher =
  comm :: "gostring \<rightharpoonup> ('a, 'f, 'h, 'u) stringArgsCommand"
  loggers :: "'u StringArgsCommandLogger list"

definition Default :: gostring where
  "Default = []"

definition call_stringArgsFunc ::
  "('a, 'f, 'h, 'u) stringArgsCommand \<Rightarrow> Context \<Rightarrow> gostring list \<Rightarrow> (call, 'u) world
     \<Rightarrow> error option \<times> (call, 'u) world" where
  "call_stringArgsFunc cmd ctx args w =
     (case c_stringArgsFunc cmd ctx args (user w) of
        (err, u) \<Rightarrow>
          (err, \<lparr>calls = calls w @ [StringArgsFuncCall (c_command cmd) ctx args], user = u\<rparr>))"

definition NewStringArgsDispatcher ::
  "'u StringArgsCommandLogger list \<Rightarrow> ('a, 'f, 'h, 'u) StringArgsDispatcher" where
  "NewStringArgsDispatcher ls = \<lparr>comm = Map.empty, loggers = ls\<rparr>"

text \<open>
  \<^verbatim>\<open>GetStringArgsFunc\<close> (the argument binder) is not among these files; the methods take
  it as the parameter \<open>GetStringArgsFunc\<close>: a binding error or the bound invoker.
  A method that mutates the dispatcher returns the dispatcher after the call.
\<close>

definition AddCommand ::
  "(rune \<Rightarrow> bool) \<Rightarrow> ('f \<Rightarrow> 'a \<Rightarrow> 'h list \<Rightarrow> error + 'u StringArgsFunc)
     \<Rightarrow> ('a, 'f, 'h, 'u) StringArgsDispatcher \<Rightarrow> gostring \<Rightarrow> gostring \<Rightarrow> 'f \<Rightarrow> 'a \<Rightarrow> 'h list
     \<Rightarrow> error option \<times> ('a, 'f, 'h, 'u) StringArgsDispatcher" where
  "AddCommand inGraphicRanges GetStringArgsFunc disp command description commandFunc args
       resultsHandlers =
     (if comm disp command \<noteq> None then (Some (ErrAlreadyAdded command), disp)
      else case checkCommandChars inGraphicRanges command of
        Some err \<Rightarrow> (Some (ErrCommandReturned command err), disp)
      | None \<Rightarrow>
          (case GetStringArgsFunc commandFunc args resultsHandlers of
             Inl err \<Rightarrow> (Some (ErrCommandReturned command err), disp)
           | Inr stringArgsFunc \<Rightarrow>
               (None, disp\<lparr>comm := (comm disp)(command \<mapsto>
                  \<lparr>c_command = command, c_description = description, c_args = args,
                   c_commandFunc = commandFunc, c_stringArgsFunc = stringArgsFunc,
                   c_resultsHandlers = resultsHandlers\<rparr>)\<rparr>)))"

definition MustAddCommand ::
  "(rune \<Rightarrow> bool) \<Rightarrow> ('f \<Rightarrow> 'a \<Rightarrow> 'h list \<Rightarrow> error + 'u StringArgsFunc)
     \<Rightarrow> ('a, 'f, 'h, 'u) StringArgsDispatcher \<Rightarrow> gostring \<Rightarrow> gostring \<Rightarrow> 'f \<Rightarrow> 'a \<Rightarrow> 'h list
     \<Rightarrow> unit outcome \<times> ('a, 'f, 'h, 'u) StringArgsDispatcher" where
  "MustAddCommand inGraphicRanges GetStringArgsFunc disp command description commandFunc args
       resultsHandlers =
     (case AddCommand inGraphicRanges GetStringArgsFunc disp command description commandFunc
             args resultsHandlers of
        (Some err, disp') \<Rightarrow> (Panic err, disp')
      | (None, disp') \<Rightarrow> (Return (), disp'))"

definition AddDefaultCommand ::
  "('f \<Rightarrow> 'a \<Rightarrow> 'h list \<Rightarrow> error + 'u StringArgsFunc)
     \<Rightarrow> ('a, 'f, 'h, 'u) StringArgsDispatcher \<Rightarrow> gostring \<Rightarrow> 'f \<Rightarrow> 'a \<Rightarrow> 'h list
     \<Rightarrow> error option \<times> ('a, 'f, 'h, 'u) StringArgsDispatcher" where
  "AddDefaultCommand GetStringArgsFunc disp description commandFunc args resultsHandlers =
     (case GetStringArgsFunc commandFunc args resultsHandlers of
        Inl err \<Rightarrow> (Some (ErrDefaultCommand err), disp)
      | Inr stringArgsFunc \<Rightarrow>
          (None, disp\<lparr>comm := (comm disp)(Default \<mapsto>
             \<lparr>c_command = Default, c_description = description, c_args = args,
              c_commandFunc = commandFunc, c_stringArgsFunc = stringArgsFunc,
              c_resultsHandlers = resultsHandlers\<rparr>)\<rparr>))"

definition MustAddDefaultCommand ::
  "('f \<Rightarrow> 'a \<Rightarrow> 'h list \<Rightarrow> error + 'u StringArgsFunc)
     \<Rightarrow> ('a, 'f, 'h, 'u) StringArgsDispatcher \<Rightarrow> gostring \<Rightarrow> 'f \<Rightarrow> 'a \<Rightarrow> 'h list
     \<Rightarrow> unit outcome \<times> ('a, 'f, 'h, 'u) StringArgsDispatcher" where
  "MustAddDefaultCommand GetStringArgsFunc disp description commandFunc args resultsHandlers =
     (case AddDefaultCommand GetStringArgsFunc disp description commandFunc args
             resultsHandlers of
        (Some err, disp') \<Rightarrow> (Panic err, disp')
      | (None, disp') \<Rightarrow> (Return (), disp'))"

definition HasCommnd :: "('a, 'f, 'h, 'u) StringArgsDispatcher \<Rightarrow> gostring \<Rightarrow> bool" where
  "HasCommnd disp command = (comm disp command \<noteq> None)"

definition HasDefaultCommnd :: "('a, 'f, 'h, 'u) StringArgsDispatcher \<Rightarrow> bool" where
  "HasDefaultCommnd disp = (comm disp Default \<noteq> None)"

text \<open>
  The loop \<^verbatim>\<open>for _, logger := range disp.loggers\<close>; \<open>i\<close> is the index of the first
  logger of the list that is left.
\<close>

fun range_loggers ::
  "'u StringArgsCommandLogger list \<Rightarrow> nat \<Rightarrow> gostring \<Rightarrow> gostring list \<Rightarrow> (call, 'u) world \<Rightarrow> (call, 'u) world" where
  "range_loggers [] i command args w = w"
| "range_loggers (logger # rest) i command args w =
     range_loggers rest (Suc i) command args (LogStringArgsCommand i logger command args w)"

definition Dispatch ::
  "('a, 'f, 'h, 'u) StringArgsDispatcher \<Rightarrow> Context \<Rightarrow> gostring \<Rightarrow> gostring list \<Rightarrow> (call, 'u) world
     \<Rightarrow> error option \<times> (call, 'u) world" where
  "Dispatch disp ctx command args w =
     (case comm disp command of
        None \<Rightarrow> (Some ErrNotFound, w)
      | Some cmd \<Rightarrow>
          call_stringArgsFunc cmd ctx args (range_loggers (loggers disp) 0 command args w))"

definition MustDispatch ::
  "('a, 'f, 'h, 'u) StringArgsDispatcher \<Rightarrow> Context \<Rightarrow> gostring \<Rightarrow> gostring list \<Rightarrow> (call, 'u) world
     \<Rightarrow> unit outcome \<times> (call, 'u) world" where
  "MustDispatch disp ctx command args w =
     (case Dispatch disp ctx command args w of
        (Some err, w') \<Rightarrow> (Panic (ErrCommandReturned command err), w')
      | (None, w') \<Rightarrow> (Return (), w'))"

definition DispatchDefaultCommand ::
  "('a, 'f, 'h, 'u) StringArgsDispatcher \<Rightarrow> (call, 'u) world \<Rightarrow> error option \<times> (call, 'u) world" where
  "DispatchDefaultCommand disp w = Dispatch disp Background Default [] w"

definition MustDispatchDefaultCommand ::
  "('a, 'f, 'h, 'u) StringArgsDispatcher \<Rightarrow> (call, 'u) world \<Rightarrow> unit outcome \<times> (call, 'u) world" where
  "MustDispatchDefaultCommand disp w =
     (case DispatchDefaultCommand disp w of
        (Some err, w') \<Rightarrow> (Panic (ErrDefaultCommand err), w')
      | (None, w') \<Rightarrow> (Return (), w'))"

text \<open>The two results \<^verbatim>\<open>(command, err)\<close> are a pair.\<close>

definition DispatchCombinedCommandAndArgs ::
  "('a, 'f, 'h, 'u) StringArgsDispatcher \<Rightarrow> Context \<Rightarrow> gostring list \<Rightarrow> (call, 'u) world
     \<Rightarrow> (gostring \<times> error option) \<times> (call, 'u) world" where
  "DispatchCombinedCommandAndArgs disp ctx commandAndArgs w =
     (if length commandAndArgs = 0 then
        (case DispatchDefaultCommand disp w of (err, w') \<Rightarrow> ((Default, err), w'))
      else
        (let command = commandAndArgs ! 0;
             args = drop 1 commandAndArgs
         in case Dispatch disp ctx command args w of (err, w') \<Rightarrow> ((command, err), w')))"

definition MustDispatchCombinedCommandAndArgs ::
  "('a, 'f, 'h, 'u) StringArgsDispatcher \<Rightarrow> Context \<Rightarrow> gostring list \<Rightarrow> (call, 'u) world
     \<Rightarrow> gostring outcome \<times> (call, 'u) world" where
  "MustDispatchCombinedCommandAndArgs disp ctx commandAndArgs w =
     (case DispatchCombinedCommandAndArgs disp ctx commandAndArgs w of
        ((command, Some err), w') \<Rightarrow> (Panic (ErrMustDispatchCombined commandAndArgs err), w')
      | ((command, None), w') \<Rightarrow> (Return command, w'))"

text \<open>
  The dispatchers the exported methods can build: \<^verbatim>\<open>comm\<close> is unexported, created by
  \<^verbatim>\<open>NewStringArgsDispatcher\<close> and written by \<^verbatim>\<open>AddCommand\<close> and \<^verbatim>\<open>AddDefaultCommand\<close>
  only.
\<close>

inductive reachable ::
  "(rune \<Rightarrow> bool) \<Rightarrow> ('f \<Rightarrow> 'a \<Rightarrow> 'h list \<Rightarrow> error + 'u StringArgsFunc)
     \<Rightarrow> ('a, 'f, 'h, 'u) StringArgsDispatcher \<Rightarrow> bool"
  for inGraphicRanges and GetStringArgsFunc where
    reachable_New: "reachable inGraphicRanges GetStringArgsFunc (NewStringArgsDispatcher ls)"
  | reachable_AddCommand:
      "reachable inGraphicRanges GetStringArgsFunc disp \<Longrightarrow>
       reachable inGraphicRanges GetStringArgsFunc
         (snd (AddCommand inGraphicRanges GetStringArgsFunc disp command description
                 commandFunc args resultsHandlers))"
  | reachable_AddDefaultCommand:
      "reachable inGraphicRanges GetStringArgsFunc disp \<Longrightarrow>
       reachable inGraphicRanges GetStringArgsFunc
         (snd (AddDefaultCommand GetStringArgsFunc disp description commandFunc args
                 resultsHandlers))"

section \<open>SuperStringArgsDispatcher\<close>

text \<open>
  \<^verbatim>\<open>sub\<close> maps a super command to its sub-dispatcher. The Go map holds pointers; here
  it holds the dispatcher the pointer leads to, and a method that changes a sub-dispatcher
  through its pointer stores the changed dispatcher back. The field \<^verbatim>\<open>loggers\<close> is
  \<open>super_loggers\<close>. The methods carry the prefix \<open>Super_\<close>.
\<close>

record ('a, 'f, 'h, 'u) SuperStringArgsDispatcher =
  sub :: "gostring \<rightharpoonup> ('a, 'f, 'h, 'u) StringArgsDispatcher"
  super_loggers :: "'u StringArgsCommandLogger list"

definition NewSuperStringArgsDispatcher ::
  "'u StringArgsCommandLogger list \<Rightarrow> ('a, 'f, 'h, 'u) SuperStringArgsDispatcher" where
  "NewSuperStringArgsDispatcher ls = \<lparr>sub = Map.empty, super_loggers = ls\<rparr>"

text \<open>
  The results \<^verbatim>\<open>(subDisp, err)\<close> are \<open>Inl err\<close> for \<^verbatim>\<open>(nil, err)\<close> and \<open>Inr subDisp\<close> for
  \<^verbatim>\<open>(subDisp, nil)\<close>.
\<close>

definition AddSuperCommand ::
  "(rune \<Rightarrow> bool) \<Rightarrow> ('a, 'f, 'h, 'u) SuperStringArgsDispatcher \<Rightarrow> gostring
     \<Rightarrow> (error + ('a, 'f, 'h, 'u) StringArgsDispatcher)
        \<times> ('a, 'f, 'h, 'u) SuperStringArgsDispatcher" where
  "AddSuperCommand inGraphicRanges disp superCommand =
     (case (if superCommand \<noteq> [] then checkCommandChars inGraphicRanges superCommand
            else None) of
        Some err \<Rightarrow> (Inl (ErrCommand superCommand err), disp)
      | None \<Rightarrow>
          if sub disp superCommand \<noteq> None then (Inl (ErrSuperAlreadyAdded superCommand), disp)
          else
            (let subDisp = NewStringArgsDispatcher (super_loggers disp)
             in (Inr subDisp, disp\<lparr>sub := (sub disp)(superCommand \<mapsto> subDisp)\<rparr>)))"

definition MustAddSuperCommand ::
  "(rune \<Rightarrow> bool) \<Rightarrow> ('a, 'f, 'h, 'u) SuperStringArgsDispatcher \<Rightarrow> gostring
     \<Rightarrow> ('a, 'f, 'h, 'u) StringArgsDispatcher outcome
        \<times> ('a, 'f, 'h, 'u) SuperStringArgsDispatcher" where
  "MustAddSuperCommand inGraphicRanges disp superCommand =
     (case AddSuperCommand inGraphicRanges disp superCommand of
        (Inl err, disp') \<Rightarrow> (Panic (ErrMustAddSuperCommand superCommand err), disp')
      | (Inr subDisp, disp') \<Rightarrow> (Return subDisp, disp'))"

definition Super_AddDefaultCommand ::
  "(rune \<Rightarrow> bool) \<Rightarrow> ('f \<Rightarrow> 'a \<Rightarrow> 'h list \<Rightarrow> error + 'u StringArgsFunc)
     \<Rightarrow> ('a, 'f, 'h, 'u) SuperStringArgsDispatcher \<Rightarrow> gostring \<Rightarrow> 'f \<Rightarrow> 'a \<Rightarrow> 'h list
     \<Rightarrow> error option \<times> ('a, 'f, 'h, 'u) SuperStringArgsDispatcher" where
  "Super_AddDefaultCommand inGraphicRanges GetStringArgsFunc disp description commandFunc args
       resultsHandlers =
     (case AddSuperCommand inGraphicRanges disp Default of
        (Inl err, disp') \<Rightarrow> (Some err, disp')
      | (Inr subDisp, disp') \<Rightarrow>
          (case AddDefaultCommand GetStringArgsFunc subDisp description commandFunc args
                  resultsHandlers of
             (err, subDisp') \<Rightarrow> (err, disp'\<lparr>sub := (sub disp')(Default \<mapsto> subDisp')\<rparr>)))"

definition Super_MustAddDefaultCommand ::
  "(rune \<Rightarrow> bool) \<Rightarrow> ('f \<Rightarrow> 'a \<Rightarrow> 'h list \<Rightarrow> error + 'u StringArgsFunc)
     \<Rightarrow> ('a, 'f, 'h, 'u) SuperStringArgsDispatcher \<Rightarrow> gostring \<Rightarrow> 'f \<Rightarrow> 'a \<Rightarrow> 'h list
     \<Rightarrow> unit outcome \<times> ('a, 'f, 'h, 'u) SuperStringArgsDispatcher" where
  "Super_MustAddDefaultCommand inGraphicRanges GetStringArgsFunc disp description commandFunc
       args resultsHandlers =
     (case Super_AddDefaultCommand inGraphicRanges GetStringArgsFunc disp description
             commandFunc args resultsHandlers of
        (Some err, disp') \<Rightarrow> (Panic (ErrMustAddDefaultCommand description err), disp')
      | (None, disp') \<Rightarrow> (Return (), disp'))"

definition Super_HasCommnd :: "('a, 'f, 'h, 'u) SuperStringArgsDispatcher \<Rightarrow> gostring \<Rightarrow> bool" where
  "Super_HasCommnd disp superCommand =
     (case sub disp superCommand of None \<Rightarrow> False | Some subDisp \<Rightarrow> HasDefaultCommnd subDisp)"

definition Super_HasSubCommnd ::
  "('a, 'f, 'h, 'u) SuperStringArgsDispatcher \<Rightarrow> gostring \<Rightarrow> gostring \<Rightarrow> bool" where
  "Super_HasSubCommnd disp superCommand command =
     (case sub disp superCommand of None \<Rightarrow> False | Some subDisp \<Rightarrow> HasCommnd subDisp command)"

definition Super_Dispatch ::
  "('a, 'f, 'h, 'u) SuperStringArgsDispatcher \<Rightarrow> Context \<Rightarrow> gostring \<Rightarrow> gostring
     \<Rightarrow> gostring list \<Rightarrow> (call, 'u) world \<Rightarrow> error option \<times> (call, 'u) world" where
  "Super_Dispatch disp ctx superCommand command args w =
     (case sub disp superCommand of
        None \<Rightarrow> (Some (SuperCommandNotFound superCommand), w)
      | Some subDisp \<Rightarrow> Dispatch subDisp ctx command args w)"

definition Super_MustDispatch ::
  "('a, 'f, 'h, 'u) SuperStringArgsDispatcher \<Rightarrow> Context \<Rightarrow> gostring \<Rightarrow> gostring
     \<Rightarrow> gostring list \<Rightarrow> (call, 'u) world \<Rightarrow> unit outcome \<times> (call, 'u) world" where
  "Super_MustDispatch disp ctx superCommand command args w =
     (case Super_Dispatch disp ctx superCommand command args w of
        (Some err, w') \<Rightarrow> (Panic (ErrCommand command err), w')
      | (None, w') \<Rightarrow> (Return (), w'))"

definition Super_DispatchDefaultCommand ::
  "('a, 'f, 'h, 'u) SuperStringArgsDispatcher \<Rightarrow> (call, 'u) world \<Rightarrow> error option \<times> (call, 'u) world" where
  "Super_DispatchDefaultCommand disp w = Super_Dispatch disp Background Default Default [] w"

definition Super_MustDispatchDefaultCommand ::
  "('a, 'f, 'h, 'u) SuperStringArgsDispatcher \<Rightarrow> (call, 'u) world \<Rightarrow> unit outcome \<times> (call, 'u) world" where
  "Super_MustDispatchDefaultCommand disp w =
     (case Super_DispatchDefaultCommand disp w of
        (Some err, w') \<Rightarrow> (Panic (ErrDefaultCommand err), w')
      | (None, w') \<Rightarrow> (Return (), w'))"

text \<open>
  The \<^verbatim>\<open>switch len(commandAndArgs)\<close>; \<^verbatim>\<open>args\<close> starts as the nil slice. The three
  results \<^verbatim>\<open>(superCommand, command, err)\<close> are a triple.
\<close>

definition Super_DispatchCombinedCommandAndArgs ::
  "('a, 'f, 'h, 'u) SuperStringArgsDispatcher \<Rightarrow> Context \<Rightarrow> gostring list \<Rightarrow> (call, 'u) world
     \<Rightarrow> (gostring \<times> gostring \<times> error option) \<times> (call, 'u) world" where
  "Super_DispatchCombinedCommandAndArgs disp ctx commandAndArgs w =
     (let (superCommand, command, args) =
            (if length commandAndArgs = 0 then (Default, Default, [])
             else if length commandAndArgs = 1 then (commandAndArgs ! 0, Default, [])
             else
               (let superCommand = commandAndArgs ! 0
                in if (case sub disp superCommand of
                         None \<Rightarrow> False
                       | Some subDisp \<Rightarrow> HasDefaultCommnd subDisp)
                   then (superCommand, Default, drop 1 commandAndArgs)
                   else (superCommand, commandAndArgs ! 1, drop 2 commandAndArgs)))
      in case Super_Dispatch disp ctx superCommand command args w of
           (err, w') \<Rightarrow> ((superCommand, command, err), w'))"

definition Super_MustDispatchCombinedCommandAndArgs ::
  "('a, 'f, 'h, 'u) SuperStringArgsDispatcher \<Rightarrow> Context \<Rightarrow> gostring list \<Rightarrow> (call, 'u) world
     \<Rightarrow> (gostring \<times> gostring) outcome \<times> (call, 'u) world" where
  "Super_MustDispatchCombinedCommandAndArgs disp ctx commandAndArgs w =
     (case Super_DispatchCombinedCommandAndArgs disp ctx commandAndArgs w of
        ((superCommand, command, Some err), w') \<Rightarrow>
          (Panic (ErrMustDispatchCombined commandAndArgs err), w')
      | ((superCommand, command, None), w') \<Rightarrow> (Return (superCommand, command), w'))"

section \<open>The HTTP adapter (package gorillamux)\<close>

text \<open>
  What a handler reads of the request: \<^verbatim>\<open>request.Context()\<close>, the path variables
  \<^verbatim>\<open>mux.Vars(request)\<close> (the map the router made for the matched route),
  \<^verbatim>\<open>request.URL.Query()\<close> and the outcome of reading the body. The query is the list of
  the map's entries in the order the \<^verbatim>\<open>range\<close> loop visits them, a key with its values;
  \<open>Query_get\<close> is the index expression \<^verbatim>\<open>request.URL.Query()[k]\<close>, the nil slice for a
  key that is not there.
\<close>

type_synonym vars = "gostring \<rightharpoonup> gostring"

record request =
  r_Context :: Context
  r_Vars :: vars
  r_Query :: "(gostring \<times> gostring list) list"
  r_Body :: "error + gostring"

definition Query_get :: "(gostring \<times> gostring list) list \<Rightarrow> gostring \<Rightarrow> gostring list" where
  "Query_get q k = (case map_of q k of None \<Rightarrow> [] | Some vs \<Rightarrow> vs)"

text \<open>
  The collaborators are code outside these files, working on a state \<open>'u\<close> of their
  own (the response writer is part of it): the bound command function \<^verbatim>\<open>cmdFunc\<close>, which
  returns \<^verbatim>\<open>(resultVals, err)\<close> or panics; the body converter; the results writer; the
  error handlers; and \<^verbatim>\<open>httperr.Handle\<close>, the parameter \<open>httperr_Handle\<close>. A panic's
  value is given as the error \<^verbatim>\<open>httperr.AsError\<close> makes of it. The result values are
  an opaque \<open>'r\<close>. Each \<open>call_\<close> function makes one call and appends it to the calls of
  the world.
\<close>

type_synonym ('r, 'u) cmdFunc = "Context \<Rightarrow> vars \<Rightarrow> 'u \<Rightarrow> ('r \<times> error option) outcome \<times> 'u"
type_synonym 'u RequestBodyArgConverter =
  "request \<Rightarrow> 'u \<Rightarrow> (gostring \<times> gostring \<times> error option) \<times> 'u"
type_synonym ('a, 'r, 'u) ResultsWriter =
  "'a \<Rightarrow> vars \<Rightarrow> 'r \<Rightarrow> error option \<Rightarrow> 'u \<Rightarrow> error option \<times> 'u"
type_synonym 'u errHandler = "error \<Rightarrow> 'u \<Rightarrow> 'u"

datatype 'r http_call =
    RequestBodyToArgCall
  | CmdFuncCall Context vars
  | WriteResultsCall vars 'r "error option"
  | HandleErrorCall nat error
  | httperr_HandleCall error

definition call_cmdFunc ::
  "('r, 'u) cmdFunc \<Rightarrow> Context \<Rightarrow> vars \<Rightarrow> ('r http_call, 'u) world
     \<Rightarrow> ('r \<times> error option) outcome \<times> ('r http_call, 'u) world" where
  "call_cmdFunc cmdFunc ctx vars w =
     (case cmdFunc ctx vars (user w) of
        (out, u) \<Rightarrow> (out, \<lparr>calls = calls w @ [CmdFuncCall ctx vars], user = u\<rparr>))"

definition call_RequestBodyToArg ::
  "'u RequestBodyArgConverter \<Rightarrow> request \<Rightarrow> ('r http_call, 'u) world
     \<Rightarrow> (gostring \<times> gostring \<times> error option) \<times> ('r http_call, 'u) world" where
  "call_RequestBodyToArg bodyConverter request w =
     (case bodyConverter request (user w) of
        (res, u) \<Rightarrow> (res, \<lparr>calls = calls w @ [RequestBodyToArgCall], user = u\<rparr>))"

definition call_WriteResults ::
  "('a, 'r, 'u) ResultsWriter \<Rightarrow> 'a \<Rightarrow> vars \<Rightarrow> 'r \<Rightarrow> error option \<Rightarrow> ('r http_call, 'u) world
     \<Rightarrow> error option \<times> ('r http_call, 'u) world" where
  "call_WriteResults resultsWriter args vars resultVals err w =
     (case resultsWriter args vars resultVals err (user w) of
        (err', u) \<Rightarrow>
          (err', \<lparr>calls = calls w @ [WriteResultsCall vars resultVals err], user = u\<rparr>))"

definition call_HandleError ::
  "nat \<Rightarrow> 'u errHandler \<Rightarrow> error \<Rightarrow> ('r http_call, 'u) world \<Rightarrow> ('r http_call, 'u) world" where
  "call_HandleError i errHandler err w =
     \<lparr>calls = calls w @ [HandleErrorCall i err], user = errHandler err (user w)\<rparr>"

definition call_httperr_Handle ::
  "'u errHandler \<Rightarrow> error \<Rightarrow> ('r http_call, 'u) world \<Rightarrow> ('r http_call, 'u) world" where
  "call_httperr_Handle httperr_Handle err w =
     \<lparr>calls = calls w @ [httperr_HandleCall err], user = httperr_Handle err (user w)\<rparr>"

text \<open>The loop \<^verbatim>\<open>for _, errHandler := range errHandlers\<close> of \<^verbatim>\<open>handleErr\<close>.\<close>

fun range_errHandlers ::
  "'u errHandler list \<Rightarrow> nat \<Rightarrow> error \<Rightarrow> ('r http_call, 'u) world \<Rightarrow> ('r http_call, 'u) world" where
  "range_errHandlers [] i err w = w"
| "range_errHandlers (errHandler # rest) i err w =
     range_errHandlers rest (Suc i) err (call_HandleError i errHandler err w)"

definition handleErr ::
  "'u errHandler \<Rightarrow> error option \<Rightarrow> 'u errHandler list \<Rightarrow> ('r http_call, 'u) world
     \<Rightarrow> ('r http_call, 'u) world" where
  "handleErr httperr_Handle err errHandlers w =
     (case err of
        None \<Rightarrow> w
      | Some e \<Rightarrow>
          if length errHandlers = 0 then call_httperr_Handle httperr_Handle e w
          else range_errHandlers errHandlers 0 e w)"

text \<open>
  The statements the three handlers end with: call \<^verbatim>\<open>cmdFunc\<close>, pass its results
  through the results writer when there is one (\<open>None\<close> is the nil interface), and hand
  the error to \<^verbatim>\<open>handleErr\<close>. A panic of \<^verbatim>\<open>cmdFunc\<close> is recovered by the deferred function
  when \<^verbatim>\<open>CatchPanics\<close> is set and leaves the handler otherwise; on a normal return the
  deferred function recovers nil and \<^verbatim>\<open>handleErr\<close> does nothing. A handler returns
  the outcome, the path-variable map as it leaves it, and the world.
\<close>

definition run_cmdFunc ::
  "bool \<Rightarrow> 'u errHandler \<Rightarrow> ('r, 'u) cmdFunc \<Rightarrow> 'a \<Rightarrow> ('a, 'r, 'u) ResultsWriter option
     \<Rightarrow> 'u errHandler list \<Rightarrow> Context \<Rightarrow> vars \<Rightarrow> ('r http_call, 'u) world
     \<Rightarrow> unit outcome \<times> vars \<times> ('r http_call, 'u) world" where
  "run_cmdFunc CatchPanics httperr_Handle cmdFunc args resultsWriter errHandlers ctx vars w =
     (case call_cmdFunc cmdFunc ctx vars w of
        (Panic e, w1) \<Rightarrow>
          if CatchPanics then (Return (), vars, handleErr httperr_Handle (Some e) errHandlers w1)
          else (Panic e, vars, w1)
      | (Return (resultVals, err), w1) \<Rightarrow>
          (case (case resultsWriter of
                   None \<Rightarrow> (err, w1)
                 | Some rw \<Rightarrow> call_WriteResults rw args vars resultVals err w1) of
             (err', w2) \<Rightarrow> (Return (), vars, handleErr httperr_Handle err' errHandlers w2)))"

text \<open>The handler \<^verbatim>\<open>CommandHandler\<close> returns.\<close>

definition CommandHandler_serve ::
  "bool \<Rightarrow> 'u errHandler \<Rightarrow> ('r, 'u) cmdFunc \<Rightarrow> 'a \<Rightarrow> ('a, 'r, 'u) ResultsWriter option
     \<Rightarrow> 'u errHandler list \<Rightarrow> request \<Rightarrow> ('r http_call, 'u) world
     \<Rightarrow> unit outcome \<times> vars \<times> ('r http_call, 'u) world" where
  "CommandHandler_serve CatchPanics httperr_Handle cmdFunc args resultsWriter errHandlers
       request w =
     run_cmdFunc CatchPanics httperr_Handle cmdFunc args resultsWriter errHandlers
       (r_Context request) (r_Vars request) w"

text \<open>
  The loop \<^verbatim>\<open>for k := range request.URL.Query()\<close> over the keys \<open>ks\<close> that are left, and
  the path variables after it.
\<close>

fun range_Query ::
  "(gostring \<times> gostring list) list \<Rightarrow> gostring list \<Rightarrow> vars \<Rightarrow> vars" where
  "range_Query q [] vars = vars"
| "range_Query q (k # ks) vars =
     range_Query q ks
       (if length (Query_get q k) > 0 \<and> length (Query_get q k ! 0) > 0
        then vars(k \<mapsto> Join (Query_get q k) (str '';''))
        else vars)"

definition addQueryParams :: "request \<Rightarrow> vars" where
  "addQueryParams request =
     range_Query (r_Query request) (map fst (r_Query request)) (r_Vars request)"

text \<open>The handler \<^verbatim>\<open>CommandHandlerWithQueryParams\<close> returns.\<close>

definition CommandHandlerWithQueryParams_serve ::
  "bool \<Rightarrow> 'u errHandler \<Rightarrow> ('r, 'u) cmdFunc \<Rightarrow> 'a \<Rightarrow> ('a, 'r, 'u) ResultsWriter option
     \<Rightarrow> 'u errHandler list \<Rightarrow> request \<Rightarrow> ('r http_call, 'u) world
     \<Rightarrow> unit outcome \<times> vars \<times> ('r http_call, 'u) world" where
  "CommandHandlerWithQueryParams_serve CatchPanics httperr_Handle cmdFunc args resultsWriter
       errHandlers request w =
     run_cmdFunc CatchPanics httperr_Handle cmdFunc args resultsWriter errHandlers
       (r_Context request) (addQueryParams request) w"

text \<open>\<^verbatim>\<open>RequestBodyAsArg(name)\<close>: the body as the value of the argument \<open>name\<close>.\<close>

definition RequestBodyAsArg :: "gostring \<Rightarrow> 'u RequestBodyArgConverter" where
  "RequestBodyAsArg name request u =
     (case r_Body request of
        Inl err \<Rightarrow> (([], [], Some err), u)
      | Inr b \<Rightarrow> ((name, b, None), u))"

text \<open>The handler \<^verbatim>\<open>CommandHandlerRequestBodyArg\<close> returns.\<close>

definition CommandHandlerRequestBodyArg_serve ::
  "bool \<Rightarrow> 'u errHandler \<Rightarrow> 'u RequestBodyArgConverter \<Rightarrow> ('r, 'u) cmdFunc \<Rightarrow> 'a
     \<Rightarrow> ('a, 'r, 'u) ResultsWriter option \<Rightarrow> 'u errHandler list \<Rightarrow> request
     \<Rightarrow> ('r http_call, 'u) world \<Rightarrow> unit outcome \<times> vars \<times> ('r http_call, 'u) world" where
  "CommandHandlerRequestBodyArg_serve CatchPanics httperr_Handle bodyConverter cmdFunc args
       resultsWriter errHandlers request w =
     (let vars = r_Vars request
      in case call_RequestBodyToArg bodyConverter request w of
           ((name, value, err), w1) \<Rightarrow>
             if err \<noteq> None then (Return (), vars, handleErr httperr_Handle err errHandlers w1)
             else if vars name \<noteq> None then
               (Return (), vars,
                handleErr httperr_Handle (Some (ErrArgAlreadySet name)) errHandlers w1)
             else
               run_cmdFunc CatchPanics httperr_Handle cmdFunc args resultsWriter errHandlers
                 (r_Context request) (vars(name \<mapsto> value)) w1)"

text \<open>
  The three constructors bind the command function once, with
  \<^verbatim>\<open>command.MustGetStringMapArgsResultValuesFunc\<close> (not among these files, the parameter
  \<open>MustGet\<close>), which panics on a binding error, and return the handler.
\<close>

definition CommandHandler ::
  "('f \<Rightarrow> 'a \<Rightarrow> ('r, 'u) cmdFunc outcome) \<Rightarrow> bool \<Rightarrow> 'u errHandler \<Rightarrow> 'f \<Rightarrow> 'a
     \<Rightarrow> ('a, 'r, 'u) ResultsWriter option \<Rightarrow> 'u errHandler list
     \<Rightarrow> (request \<Rightarrow> ('r http_call, 'u) world
           \<Rightarrow> unit outcome \<times> vars \<times> ('r http_call, 'u) world) outcome" where
  "CommandHandler MustGet CatchPanics httperr_Handle commandFunc args resultsWriter errHandlers =
     (case MustGet commandFunc args of
        Panic e \<Rightarrow> Panic e
      | Return cmdFunc \<Rightarrow>
          Return (CommandHandler_serve CatchPanics httperr_Handle cmdFunc args resultsWriter
                    errHandlers))"

definition CommandHandlerWithQueryParams ::
  "('f \<Rightarrow> 'a \<Rightarrow> ('r, 'u) cmdFunc outcome) \<Rightarrow> bool \<Rightarrow> 'u errHandler \<Rightarrow> 'f \<Rightarrow> 'a
     \<Rightarrow> ('a, 'r, 'u) ResultsWriter option \<Rightarrow> 'u errHandler list
     \<Rightarrow> (request \<Rightarrow> ('r http_call, 'u) world
           \<Rightarrow> unit outcome \<times> vars \<times> ('r http_call, 'u) world) outcome" where
  "CommandHandlerWithQueryParams MustGet CatchPanics httperr_Handle commandFunc args
       resultsWriter errHandlers =
     (case MustGet commandFunc args of
        Panic e \<Rightarrow> Panic e
      | Return cmdFunc \<Rightarrow>
          Return (CommandHandlerWithQueryParams_serve CatchPanics httperr_Handle cmdFunc args
                    resultsWriter errHandlers))"

definition CommandHandlerRequestBodyArg ::
  "('f \<Rightarrow> 'a \<Rightarrow> ('r, 'u) cmdFunc outcome) \<Rightarrow> bool \<Rightarrow> 'u errHandler
     \<Rightarrow> 'u RequestBodyArgConverter \<Rightarrow> 'f \<Rightarrow> 'a
     \<Rightarrow> ('a, 'r, 'u) ResultsWriter option \<Rightarrow> 'u errHandler list
     \<Rightarrow> (request \<Rightarrow> ('r http_call, 'u) world
           \<Rightarrow> unit outcome \<times> vars \<times> ('r http_call, 'u) world) outcome" where
  "CommandHandlerRequestBodyArg MustGet CatchPanics httperr_Handle bodyConverter commandFunc
       args resultsWriter errHandlers =
     (case MustGet commandFunc args of
        Panic e \<Rightarrow> Panic e
      | Return cmdFunc \<Rightarrow>
          Return (CommandHandlerRequestBodyArg_serve CatchPanics httperr_Handle bodyConverter
                    cmdFunc args resultsWriter errHandlers))"

section \<open>Must variants\<close>

text \<open>
  How a Must variant stands to its plain variant: \<open>err\<close> and \<open>r\<close> are the error and the
  other results the plain variant returns, \<open>out\<close> is the outcome of the Must variant.
  It panics exactly when \<open>err\<close> is not nil, and returns \<open>r\<close> when \<open>err\<close> is nil.
\<close>

definition must_agrees :: "error option \<Rightarrow> 'r \<Rightarrow> 'r outcome \<Rightarrow> bool" where
  "must_agrees err r out \<longleftrightarrow>
     (is_Panic out \<longleftrightarrow> err \<noteq> None) \<and> (err = None \<longrightarrow> out = Return r)"

section \<open>Example values\<close>

text \<open>
  Concrete callers for the instances below. The state of the callers' code is a counter
  that every logger call increments. A command function is given as the error its bound
  invoker returns, and the example binder binds every one of them.
\<close>

definition example_logger :: "nat StringArgsCommandLogger" where
  "example_logger command args u = Suc u"

definition example_binder :: "error option \<Rightarrow> unit \<Rightarrow> unit list \<Rightarrow> error + nat StringArgsFunc" where
  "example_binder commandFunc args resultsHandlers = Inr (\<lambda>ctx as u. (commandFunc, u))"

definition example_world :: "(call, nat) world" where
  "example_world = \<lparr>calls = [], user = 0\<rparr>"

text \<open>A dispatcher with two loggers and the command \<^verbatim>\<open>fail\<close>, which returns an error.\<close>

definition example_disp :: "(unit, error option, unit, nat) StringArgsDispatcher" where
  "example_disp =
     snd (AddCommand (\<lambda>r. False) example_binder
            (NewStringArgsDispatcher [example_logger, example_logger])
            (str ''fail'') (str ''always fails'') (Some (Err (str ''boom''))) () [])"

text \<open>A dispatcher after one \<^verbatim>\<open>AddDefaultCommand\<close>.\<close>

definition example_first :: "(unit, error option, unit, nat) StringArgsDispatcher" where
  "example_first =
     snd (AddDefaultCommand example_binder (NewStringArgsDispatcher [])
            (str ''first'') None () [])"

text \<open>A super dispatcher with a default command.\<close>

definition example_super :: "(unit, error option, unit, nat) SuperStringArgsDispatcher" where
  "example_super =
     snd (Super_AddDefaultCommand (\<lambda>r. False) example_binder
            (NewSuperStringArgsDispatcher [example_logger]) (str ''the default'') None () [])"

text \<open>
  For the HTTP adapter the callers' state is the list of the values the command function
  has received for the argument \<^verbatim>\<open>a\<close>. The first request is \<^verbatim>\<open>/p?a=&a=x\<close> on the route
  \<^verbatim>\<open>/{a}\<close>, the second \<^verbatim>\<open>/p?a=x&a=y\<close>.
\<close>

definition example_cmdFunc :: "(unit, gostring option list) cmdFunc" where
  "example_cmdFunc ctx vars u = (Return ((), None), u @ [vars (str ''a'')])"

definition example_errHandler :: "gostring option list errHandler" where
  "example_errHandler err u = u"

definition example_hworld :: "(unit http_call, gostring option list) world" where
  "example_hworld = \<lparr>calls = [], user = []\<rparr>"

definition example_request :: request where
  "example_request =
     \<lparr>r_Context = Background, r_Vars = map_of [(str ''a'', str ''p'')],
      r_Query = [(str ''a'', [[], str ''x''])], r_Body = Inr (str ''b'')\<rparr>"

definition example_request2 :: request where
  "example_request2 =
     \<lparr>r_Context = Background, r_Vars = map_of [(str ''a'', str ''p'')],
      r_Query = [(str ''a'', [str ''x'', str ''y''])], r_Body = Inr (str ''b'')\<rparr>"

section \<open>Properties\<close>

subsection \<open>The library loops\<close>

lemma indexFunc_found: "(\<exists>r \<in> set s. f r) \<Longrightarrow> 0 \<le> indexFunc s f i"
  by (induction s arbitrary: i) auto

lemma indexFunc_none: "\<not> (\<exists>r \<in> set s. f r) \<Longrightarrow> indexFunc s f i = - 1"
  by (induction s arbitrary: i) auto

lemma IndexFunc_nonneg_iff: "0 \<le> IndexFunc s f \<longleftrightarrow> (\<exists>r \<in> set s. f r)"
  unfolding IndexFunc_def
  using indexFunc_found [of s f 0] indexFunc_none [of s f 0] by fastforce

lemma IndexFunc_minus_one_iff: "IndexFunc s f = - 1 \<longleftrightarrow> \<not> (\<exists>r \<in> set s. f r)"
  unfolding IndexFunc_def
  using indexFunc_found [of s f 0] indexFunc_none [of s f 0] by fastforce

lemma ContainsAny_iff: "ContainsAny s chars \<longleftrightarrow> (\<exists>r \<in> set s. r \<in> set chars)"
  by (induction s) auto

subsection \<open>Command-name syntax\<close>

text \<open>
  C6. \<open>checkCommandChars\<close> accepts a name (returns no error) if and only if the name
  contains no whitespace character, contains at least one graphic character, and
  contains none of the characters \<^verbatim>\<open>| & ; ( ) < >\<close>.
\<close>

theorem checkCommandChars_accepts_iff:
  "checkCommandChars inGraphicRanges command = None \<longleftrightarrow>
     (\<forall>r \<in> set command. \<not> IsSpace r)
     \<and> (\<exists>r \<in> set command. IsGraphic inGraphicRanges r)
     \<and> (\<forall>r \<in> set command. r \<notin> set (str ''|&;()<>''))"
proof -
  have space: "0 \<le> IndexFunc command IsSpace \<longleftrightarrow> (\<exists>r \<in> set command. IsSpace r)"
    by (rule IndexFunc_nonneg_iff)
  have graphic: "IndexFunc command (IsGraphic inGraphicRanges) = - 1
      \<longleftrightarrow> \<not> (\<exists>r \<in> set command. IsGraphic inGraphicRanges r)"
    by (rule IndexFunc_minus_one_iff)
  have special: "ContainsAny command (str ''|&;()<>'')
      \<longleftrightarrow> (\<exists>r \<in> set command. r \<in> set (str ''|&;()<>''))"
    by (rule ContainsAny_iff)
  show ?thesis
    unfolding checkCommandChars_def space graphic special by auto
qed

theorem checkCommandChars_accepts_iff_witness:
  "checkCommandChars (\<lambda>r. False) (str ''greet'') = None
   \<and> checkCommandChars (\<lambda>r. False) (str ''say hi'') \<noteq> None
   \<and> checkCommandChars (\<lambda>r. False) (str ''a|b'') \<noteq> None
   \<and> checkCommandChars (\<lambda>r. False) [] \<noteq> None"
  using checkCommandChars_accepts_iff [of "\<lambda>r. False" "str ''greet''"]
    checkCommandChars_accepts_iff [of "\<lambda>r. False" "str ''say hi''"]
    checkCommandChars_accepts_iff [of "\<lambda>r. False" "str ''a|b''"]
    checkCommandChars_accepts_iff [of "\<lambda>r. False" "[]"]
  by (simp add: IsSpace_def IsGraphic_def)

subsection \<open>The example values\<close>

lemma example_disp_eq:
  "example_disp =
     \<lparr>comm = [str ''fail'' \<mapsto>
        \<lparr>c_command = str ''fail'', c_description = str ''always fails'', c_args = (),
         c_commandFunc = Some (Err (str ''boom'')),
         c_stringArgsFunc = (\<lambda>ctx as u. (Some (Err (str ''boom'')), u)),
         c_resultsHandlers = []\<rparr>],
      loggers = [example_logger, example_logger]\<rparr>"
  unfolding example_disp_def AddCommand_def
  by (simp add: checkCommandChars_def IndexFunc_def IsSpace_def IsGraphic_def
      NewStringArgsDispatcher_def example_binder_def)

lemma example_first_eq:
  "example_first =
     \<lparr>comm = [Default \<mapsto>
        \<lparr>c_command = Default, c_description = str ''first'', c_args = (),
         c_commandFunc = None, c_stringArgsFunc = (\<lambda>ctx as u. (None, u)),
         c_resultsHandlers = []\<rparr>],
      loggers = []\<rparr>"
  unfolding example_first_def AddDefaultCommand_def
  by (simp add: NewStringArgsDispatcher_def example_binder_def)

lemma example_super_eq:
  "example_super =
     \<lparr>sub = [Default \<mapsto>
        \<lparr>comm = [Default \<mapsto>
           \<lparr>c_command = Default, c_description = str ''the default'', c_args = (),
            c_commandFunc = None, c_stringArgsFunc = (\<lambda>ctx as u. (None, u)),
            c_resultsHandlers = []\<rparr>],
         loggers = [example_logger]\<rparr>],
      super_loggers = [example_logger]\<rparr>"
  unfolding example_super_def Super_AddDefaultCommand_def AddSuperCommand_def
    AddDefaultCommand_def
  by (simp add: NewStringArgsDispatcher_def NewSuperStringArgsDispatcher_def example_binder_def
      Default_def Let_def)

subsection \<open>Registering a name twice\<close>

text \<open>
  \<^verbatim>\<open>AddCommand\<close> and \<^verbatim>\<open>AddSuperCommand\<close> refuse a name that is registered and leave the
  dispatcher as it was; so does \<^verbatim>\<open>SuperStringArgsDispatcher.AddDefaultCommand\<close>, through
  \<^verbatim>\<open>AddSuperCommand\<close>.
\<close>

lemma AddCommand_registered_name:
  "comm disp command \<noteq> None \<Longrightarrow>
     AddCommand G B disp command description commandFunc args resultsHandlers =
       (Some (ErrAlreadyAdded command), disp)"
  by (simp add: AddCommand_def)

lemma AddSuperCommand_registered_name:
  assumes "sub sdisp superCommand \<noteq> None"
  shows "\<exists>err. AddSuperCommand G sdisp superCommand = (Inl err, sdisp)"
  using assms by (auto simp: AddSuperCommand_def split: option.splits)

lemma Super_AddDefaultCommand_registered:
  "sub sdisp Default \<noteq> None \<Longrightarrow>
     Super_AddDefaultCommand G B sdisp description commandFunc args resultsHandlers =
       (Some (ErrSuperAlreadyAdded Default), sdisp)"
  by (simp add: Super_AddDefaultCommand_def AddSuperCommand_def Default_def)

text \<open>
  C1. Registering a name that is already registered returns an error and leaves the first
  entry as it was. \<^verbatim>\<open>StringArgsDispatcher.AddDefaultCommand\<close> does not: it has no test
  for an entry under \<^verbatim>\<open>Default\<close>. On the dispatcher \<open>example_first\<close>, whose default command
  has the description \<^verbatim>\<open>first\<close>, a second \<^verbatim>\<open>AddDefaultCommand\<close> returns nil and the entry
  under \<^verbatim>\<open>Default\<close> is the second one.
\<close>

theorem AddDefaultCommand_second_registration_overwrites:
  "map_option c_description (comm example_first Default) = Some (str ''first'')
   \<and> fst (AddDefaultCommand example_binder example_first (str ''second'')
            (Some (Err (str ''boom''))) () []) = None
   \<and> map_option c_description
        (comm (snd (AddDefaultCommand example_binder example_first (str ''second'')
                      (Some (Err (str ''boom''))) () [])) Default) = Some (str ''second'')
   \<and> map_option c_commandFunc
        (comm (snd (AddDefaultCommand example_binder example_first (str ''second'')
                      (Some (Err (str ''boom''))) () [])) Default)
       = Some (Some (Err (str ''boom'')))"
  by (simp add: example_first_eq AddDefaultCommand_def example_binder_def)

subsection \<open>Registering an invalid name\<close>

lemma reachable_names:
  "reachable G B disp \<Longrightarrow> comm disp command \<noteq> None \<Longrightarrow>
     command = Default \<or> checkCommandChars G command = None"
proof (induction arbitrary: command rule: reachable.induct)
  case (reachable_New ls)
  then show ?case by (simp add: NewStringArgsDispatcher_def)
next
  case (reachable_AddCommand disp c description commandFunc args resultsHandlers)
  then show ?case
    by (auto simp: AddCommand_def split: if_splits option.splits sum.splits)
next
  case (reachable_AddDefaultCommand disp description commandFunc args resultsHandlers)
  then show ?case
    by (auto simp: AddDefaultCommand_def split: if_splits option.splits sum.splits)
qed

lemma special_is_graphic: "r \<in> set (str ''|&;()<>'') \<Longrightarrow> IsGraphic G r"
  by (auto simp: IsGraphic_def)

lemma checkCommandChars_rejects:
  assumes "\<exists>r \<in> set command. IsSpace r \<or> r \<in> set (str ''|&;()<>'')"
  shows "checkCommandChars G command =
     Some (if \<exists>r \<in> set command. IsSpace r then ErrSpaceCharacters command
           else ErrInvalidCharacters command)"
proof (cases "\<exists>r \<in> set command. IsSpace r")
  case True
  then show ?thesis by (simp add: checkCommandChars_def IndexFunc_nonneg_iff)
next
  case False
  with assms obtain r where r: "r \<in> set command" "r \<in> set (str ''|&;()<>'')" by blast
  then have g: "\<exists>r \<in> set command. IsGraphic G r" using special_is_graphic by blast
  have s: "\<exists>r \<in> set command. r \<in> set (str ''|&;()<>'')" using r by blast
  have "\<not> 0 \<le> IndexFunc command IsSpace"
    using False IndexFunc_nonneg_iff [of command IsSpace] by blast
  moreover have "IndexFunc command (IsGraphic G) \<noteq> - 1"
    using g IndexFunc_minus_one_iff [of command "IsGraphic G"] by blast
  moreover have "ContainsAny command (str ''|&;()<>'')"
    using s ContainsAny_iff [of command "str ''|&;()<>''"] by blast
  ultimately show ?thesis using False unfolding checkCommandChars_def by simp
qed

text \<open>
  C2. For a command name that contains a whitespace character or one of \<^verbatim>\<open>|&;()<>\<close>,
  \<^verbatim>\<open>AddCommand\<close> on a dispatcher built by the exported methods, and \<^verbatim>\<open>AddSuperCommand\<close>
  (the name is not empty), return the naming error of \<open>checkCommandChars\<close>, wrapped, and
  the dispatcher is the one before the call.
\<close>

theorem invalid_name_registration_fails:
  assumes bad: "\<exists>r \<in> set command. IsSpace r \<or> r \<in> set (str ''|&;()<>'')"
    and reach: "reachable G B disp"
  shows "AddCommand G B disp command description commandFunc args resultsHandlers =
           (Some (ErrCommandReturned command
              (if \<exists>r \<in> set command. IsSpace r then ErrSpaceCharacters command
               else ErrInvalidCharacters command)), disp)
       \<and> command \<noteq> []
       \<and> AddSuperCommand G sdisp command =
           (Inl (ErrCommand command
              (if \<exists>r \<in> set command. IsSpace r then ErrSpaceCharacters command
               else ErrInvalidCharacters command)), sdisp)"
proof -
  note chk = checkCommandChars_rejects [OF bad, of G]
  have ne: "command \<noteq> []" using bad by auto
  then have "command \<noteq> Default" by (simp add: Default_def)
  with reachable_names [OF reach, of command] chk have absent: "comm disp command = None"
    by (cases "comm disp command") auto
  have a: "AddCommand G B disp command description commandFunc args resultsHandlers =
           (Some (ErrCommandReturned command
              (if \<exists>r \<in> set command. IsSpace r then ErrSpaceCharacters command
               else ErrInvalidCharacters command)), disp)"
    unfolding AddCommand_def using absent chk by simp
  have b: "AddSuperCommand G sdisp command =
           (Inl (ErrCommand command
              (if \<exists>r \<in> set command. IsSpace r then ErrSpaceCharacters command
               else ErrInvalidCharacters command)), sdisp)"
    unfolding AddSuperCommand_def using ne chk by simp
  from a b ne show ?thesis by blast
qed

theorem invalid_name_registration_fails_witness:
  "AddCommand (\<lambda>r. False) example_binder example_disp (str ''say hi'') (str ''greets'')
       None () [] =
      (Some (ErrCommandReturned (str ''say hi'') (ErrSpaceCharacters (str ''say hi''))),
       example_disp)
   \<and> AddSuperCommand (\<lambda>r. False) example_super (str ''a|b'') =
      (Inl (ErrCommand (str ''a|b'') (ErrInvalidCharacters (str ''a|b''))), example_super)"
proof -
  have reach: "reachable (\<lambda>r. False) example_binder example_disp"
    unfolding example_disp_def by (intro reachable_AddCommand reachable_New)
  have bad1: "\<exists>r \<in> set (str ''say hi''). IsSpace r \<or> r \<in> set (str ''|&;()<>'')"
    by (simp add: IsSpace_def)
  have bad2: "\<exists>r \<in> set (str ''a|b''). IsSpace r \<or> r \<in> set (str ''|&;()<>'')"
    by (simp add: IsSpace_def)
  have sp1: "\<exists>r \<in> set (str ''say hi''). IsSpace r" by (simp add: IsSpace_def)
  have sp2: "\<not> (\<exists>r \<in> set (str ''a|b''). IsSpace r)" by (simp add: IsSpace_def)
  show ?thesis
    using invalid_name_registration_fails [OF bad1 reach, of "str ''greets''" None "()" "[]"
        example_super]
      invalid_name_registration_fails [OF bad2 reach, of "str ''greets''" None "()" "[]"
        example_super]
      sp1 sp2
    by (simp only: if_True if_False)
qed

subsection \<open>Dispatch\<close>

text \<open>
  C3. Dispatching a name that is not registered returns \<^verbatim>\<open>ErrNotFound\<close> and leaves the
  world as it was: no call is added to the calls made and the callers' state is the same,
  so no logger and no invoker has run. Dispatching an unregistered super command
  returns \<^verbatim>\<open>SuperCommandNotFound\<close> in the same way.
\<close>

theorem unregistered_name_not_found:
  "(comm disp command = None \<longrightarrow>
      Dispatch disp ctx command args w = (Some ErrNotFound, w))
   \<and> (sub sdisp superCommand = None \<longrightarrow>
      Super_Dispatch sdisp ctx superCommand command args w =
        (Some (SuperCommandNotFound superCommand), w))"
  by (simp add: Dispatch_def Super_Dispatch_def)

theorem unregistered_name_not_found_witness:
  "Dispatch example_disp (Ctx 1) (str ''nope'') [str ''x''] example_world =
      (Some ErrNotFound, example_world)
   \<and> Super_Dispatch example_super (Ctx 1) (str ''git'') (str ''nope'') [str ''x'']
        example_world = (Some (SuperCommandNotFound (str ''git'')), example_world)"
  using unregistered_name_not_found [of example_disp "str ''nope''" "Ctx 1" "[str ''x'']"
      example_world example_super "str ''git''"]
  by (simp add: example_disp_eq example_super_eq Default_def)

lemma range_loggers_eq:
  "range_loggers ls i command args w =
     \<lparr>calls = calls w @ map (\<lambda>j. LoggerCall j command args) [i ..< i + length ls],
      user = foldl (\<lambda>u logger. logger command args u) (user w) ls\<rparr>"
proof (induction ls arbitrary: i w)
  case Nil
  then show ?case by simp
next
  case (Cons logger rest)
  have upt: "[i ..< i + length (logger # rest)] = i # [Suc i ..< Suc i + length rest]"
    by (subst upt_rec) simp
  show ?case
    unfolding upt by (simp add: Cons.IH LogStringArgsCommand_def)
qed

text \<open>
  C4. A dispatch of a registered command calls every logger of the dispatcher once with
  the command name and the raw arguments, in the order of the \<^verbatim>\<open>loggers\<close> slice, and
  then the bound invoker of the command; these are all the calls it makes. What it
  returns is what the invoker returns, on the state the loggers left, an error or nil:
  the loggers have been called either way.
\<close>

theorem Dispatch_notifies_loggers_then_invokes:
  assumes "comm disp command = Some cmd"
  shows "calls (snd (Dispatch disp ctx command args w)) =
           calls w @ map (\<lambda>i. LoggerCall i command args) [0 ..< length (loggers disp)]
             @ [StringArgsFuncCall (c_command cmd) ctx args]
       \<and> fst (Dispatch disp ctx command args w) =
           fst (c_stringArgsFunc cmd ctx args
                  (foldl (\<lambda>u logger. logger command args u) (user w) (loggers disp)))"
  using assms
  by (simp add: Dispatch_def call_stringArgsFunc_def range_loggers_eq split: prod.splits)

theorem Dispatch_notifies_loggers_then_invokes_witness:
  "calls (snd (Dispatch example_disp Background (str ''fail'') [str ''x''] example_world)) =
      [LoggerCall 0 (str ''fail'') [str ''x''], LoggerCall 1 (str ''fail'') [str ''x''],
       StringArgsFuncCall (str ''fail'') Background [str ''x'']]
   \<and> fst (Dispatch example_disp Background (str ''fail'') [str ''x''] example_world) =
      Some (Err (str ''boom''))"
proof -
  have reg: "comm example_disp (str ''fail'') =
      Some \<lparr>c_command = str ''fail'', c_description = str ''always fails'', c_args = (),
         c_commandFunc = Some (Err (str ''boom'')),
         c_stringArgsFunc = (\<lambda>ctx as u. (Some (Err (str ''boom'')), u)),
         c_resultsHandlers = []\<rparr>"
    by (simp add: example_disp_eq)
  have two: "[0 ..< length (loggers example_disp)] = [0, 1]"
    by (simp add: example_disp_eq upt_rec)
  show ?thesis
    using Dispatch_notifies_loggers_then_invokes [OF reg, of Background "[str ''x'']"
        example_world]
    unfolding two by (simp add: example_world_def)
qed

text \<open>
  C5. \<^verbatim>\<open>DispatchDefaultCommand\<close> is \<^verbatim>\<open>Dispatch\<close> with the background context, the name
  \<^verbatim>\<open>Default\<close>, which is the empty string, and no arguments: the same error and the same
  world, from every dispatcher and world. The same holds for the super dispatcher, with
  \<^verbatim>\<open>Default\<close> for both names.
\<close>

theorem DispatchDefaultCommand_is_Dispatch_Default:
  "DispatchDefaultCommand disp w = Dispatch disp Background Default [] w
   \<and> Default = []
   \<and> Super_DispatchDefaultCommand sdisp w =
       Super_Dispatch sdisp Background Default Default [] w"
  by (simp add: DispatchDefaultCommand_def Super_DispatchDefaultCommand_def Default_def)

text \<open>
  C9. \<^verbatim>\<open>SuperStringArgsDispatcher.DispatchCombinedCommandAndArgs\<close>: the empty list
  dispatches \<^verbatim>\<open>(Default, Default)\<close> with no arguments; a list of one element dispatches
  that element and \<^verbatim>\<open>Default\<close> with no arguments; for a longer list, when the first
  element is a registered super command whose sub-dispatcher has a default command
  (\<open>Super_HasCommnd\<close>), all the elements after the first are the arguments of that default
  command, and otherwise the second element is the command and the elements after it the
  arguments. The names dispatched are returned with the error of the dispatch.
\<close>

theorem Super_DispatchCombinedCommandAndArgs_cases:
  "Super_DispatchCombinedCommandAndArgs disp ctx [] w =
      ((Default, Default, fst (Super_Dispatch disp ctx Default Default [] w)),
       snd (Super_Dispatch disp ctx Default Default [] w))
   \<and> Super_DispatchCombinedCommandAndArgs disp ctx [s] w =
      ((s, Default, fst (Super_Dispatch disp ctx s Default [] w)),
       snd (Super_Dispatch disp ctx s Default [] w))
   \<and> (Super_HasCommnd disp s \<longrightarrow>
        Super_DispatchCombinedCommandAndArgs disp ctx (s # c # rest) w =
          ((s, Default, fst (Super_Dispatch disp ctx s Default (c # rest) w)),
           snd (Super_Dispatch disp ctx s Default (c # rest) w)))
   \<and> (\<not> Super_HasCommnd disp s \<longrightarrow>
        Super_DispatchCombinedCommandAndArgs disp ctx (s # c # rest) w =
          ((s, c, fst (Super_Dispatch disp ctx s c rest w)),
           snd (Super_Dispatch disp ctx s c rest w)))"
  by (simp add: Super_DispatchCombinedCommandAndArgs_def Super_HasCommnd_def
      split: prod.splits option.splits)

theorem Super_DispatchCombinedCommandAndArgs_cases_witness:
  "Super_DispatchCombinedCommandAndArgs example_super Background
       [Default, str ''x'', str ''y''] example_world =
      ((Default, Default, None),
       \<lparr>calls = [LoggerCall 0 Default [str ''x'', str ''y''],
                 StringArgsFuncCall Default Background [str ''x'', str ''y'']],
        user = 1\<rparr>)
   \<and> Super_DispatchCombinedCommandAndArgs example_super Background
       [str ''git'', str ''x'', str ''y''] example_world =
      ((str ''git'', str ''x'', Some (SuperCommandNotFound (str ''git''))), example_world)"
proof -
  have yes: "Super_HasCommnd example_super Default"
    by (simp add: Super_HasCommnd_def HasDefaultCommnd_def example_super_eq)
  have no: "\<not> Super_HasCommnd example_super (str ''git'')"
    by (simp add: Super_HasCommnd_def example_super_eq Default_def)
  have d1: "Super_Dispatch example_super Background Default Default [str ''x'', str ''y'']
        example_world =
      (None, \<lparr>calls = [LoggerCall 0 Default [str ''x'', str ''y''],
                 StringArgsFuncCall Default Background [str ''x'', str ''y'']],
        user = 1\<rparr>)"
    by (simp add: Super_Dispatch_def Dispatch_def example_super_eq call_stringArgsFunc_def
        LogStringArgsCommand_def example_logger_def example_world_def)
  have d2: "Super_Dispatch example_super Background (str ''git'') (str ''x'') [str ''y'']
        example_world = (Some (SuperCommandNotFound (str ''git'')), example_world)"
    by (simp add: Super_Dispatch_def example_super_eq Default_def)
  show ?thesis
    using Super_DispatchCombinedCommandAndArgs_cases [of example_super Background example_world
        Default "str ''x''" "[str ''y'']"]
      Super_DispatchCombinedCommandAndArgs_cases [of example_super Background example_world
        "str ''git''" "str ''x''" "[str ''y'']"]
      yes no
    by (simp only: d1 d2 fst_conv snd_conv simp_thms)
qed

subsection \<open>Must variants\<close>

text \<open>
  C7. Each Must variant panics if and only if its plain variant returns an error that is
  not nil, and otherwise returns the results of the plain variant other than the error;
  it leaves the dispatcher, or the world, as the plain variant leaves it. This holds for
  the ten Must variants of the two dispatchers.
\<close>

theorem Must_variants_panic_iff_error:
  "must_agrees (fst (AddCommand G B disp command description commandFunc args resultsHandlers)) ()
      (fst (MustAddCommand G B disp command description commandFunc args resultsHandlers))
   \<and> snd (MustAddCommand G B disp command description commandFunc args resultsHandlers)
       = snd (AddCommand G B disp command description commandFunc args resultsHandlers)
   \<and> must_agrees (fst (AddDefaultCommand B disp description commandFunc args resultsHandlers)) ()
      (fst (MustAddDefaultCommand B disp description commandFunc args resultsHandlers))
   \<and> snd (MustAddDefaultCommand B disp description commandFunc args resultsHandlers)
       = snd (AddDefaultCommand B disp description commandFunc args resultsHandlers)
   \<and> must_agrees (fst (Dispatch disp ctx command as w)) ()
        (fst (MustDispatch disp ctx command as w))
   \<and> snd (MustDispatch disp ctx command as w) = snd (Dispatch disp ctx command as w)
   \<and> must_agrees (fst (DispatchDefaultCommand disp w)) ()
        (fst (MustDispatchDefaultCommand disp w))
   \<and> snd (MustDispatchDefaultCommand disp w) = snd (DispatchDefaultCommand disp w)
   \<and> must_agrees (snd (fst (DispatchCombinedCommandAndArgs disp ctx commandAndArgs w)))
        (fst (fst (DispatchCombinedCommandAndArgs disp ctx commandAndArgs w)))
        (fst (MustDispatchCombinedCommandAndArgs disp ctx commandAndArgs w))
   \<and> snd (MustDispatchCombinedCommandAndArgs disp ctx commandAndArgs w)
       = snd (DispatchCombinedCommandAndArgs disp ctx commandAndArgs w)
   \<and> (is_Panic (fst (MustAddSuperCommand G sdisp superCommand))
        \<longleftrightarrow> isl (fst (AddSuperCommand G sdisp superCommand)))
   \<and> (\<forall>subDisp. fst (AddSuperCommand G sdisp superCommand) = Inr subDisp \<longrightarrow>
         fst (MustAddSuperCommand G sdisp superCommand) = Return subDisp)
   \<and> snd (MustAddSuperCommand G sdisp superCommand) = snd (AddSuperCommand G sdisp superCommand)
   \<and> must_agrees
        (fst (Super_AddDefaultCommand G B sdisp description commandFunc args resultsHandlers)) ()
        (fst (Super_MustAddDefaultCommand G B sdisp description commandFunc args resultsHandlers))
   \<and> snd (Super_MustAddDefaultCommand G B sdisp description commandFunc args resultsHandlers)
       = snd (Super_AddDefaultCommand G B sdisp description commandFunc args resultsHandlers)
   \<and> must_agrees (fst (Super_Dispatch sdisp ctx superCommand command as w)) ()
        (fst (Super_MustDispatch sdisp ctx superCommand command as w))
   \<and> snd (Super_MustDispatch sdisp ctx superCommand command as w)
       = snd (Super_Dispatch sdisp ctx superCommand command as w)
   \<and> must_agrees (fst (Super_DispatchDefaultCommand sdisp w)) ()
        (fst (Super_MustDispatchDefaultCommand sdisp w))
   \<and> snd (Super_MustDispatchDefaultCommand sdisp w) = snd (Super_DispatchDefaultCommand sdisp w)
   \<and> must_agrees
        (snd (snd (fst (Super_DispatchCombinedCommandAndArgs sdisp ctx commandAndArgs w))))
        (fst (fst (Super_DispatchCombinedCommandAndArgs sdisp ctx commandAndArgs w)),
         fst (snd (fst (Super_DispatchCombinedCommandAndArgs sdisp ctx commandAndArgs w))))
        (fst (Super_MustDispatchCombinedCommandAndArgs sdisp ctx commandAndArgs w))
   \<and> snd (Super_MustDispatchCombinedCommandAndArgs sdisp ctx commandAndArgs w)
       = snd (Super_DispatchCombinedCommandAndArgs sdisp ctx commandAndArgs w)"
proof -
  have 1: "must_agrees
        (fst (AddCommand G B disp command description commandFunc args resultsHandlers)) ()
        (fst (MustAddCommand G B disp command description commandFunc args resultsHandlers))
   \<and> snd (MustAddCommand G B disp command description commandFunc args resultsHandlers)
       = snd (AddCommand G B disp command description commandFunc args resultsHandlers)"
    by (cases "AddCommand G B disp command description commandFunc args resultsHandlers")
       (auto simp: MustAddCommand_def must_agrees_def split: option.splits)
  have 2: "must_agrees
        (fst (AddDefaultCommand B disp description commandFunc args resultsHandlers)) ()
        (fst (MustAddDefaultCommand B disp description commandFunc args resultsHandlers))
   \<and> snd (MustAddDefaultCommand B disp description commandFunc args resultsHandlers)
       = snd (AddDefaultCommand B disp description commandFunc args resultsHandlers)"
    by (cases "AddDefaultCommand B disp description commandFunc args resultsHandlers")
       (auto simp: MustAddDefaultCommand_def must_agrees_def split: option.splits)
  have 3: "must_agrees (fst (Dispatch disp ctx command as w)) ()
        (fst (MustDispatch disp ctx command as w))
   \<and> snd (MustDispatch disp ctx command as w) = snd (Dispatch disp ctx command as w)"
    by (cases "Dispatch disp ctx command as w")
       (auto simp: MustDispatch_def must_agrees_def split: option.splits)
  have 4: "must_agrees (fst (DispatchDefaultCommand disp w)) ()
        (fst (MustDispatchDefaultCommand disp w))
   \<and> snd (MustDispatchDefaultCommand disp w) = snd (DispatchDefaultCommand disp w)"
    by (cases "DispatchDefaultCommand disp w")
       (auto simp: MustDispatchDefaultCommand_def must_agrees_def split: option.splits)
  have 5: "must_agrees (snd (fst (DispatchCombinedCommandAndArgs disp ctx commandAndArgs w)))
        (fst (fst (DispatchCombinedCommandAndArgs disp ctx commandAndArgs w)))
        (fst (MustDispatchCombinedCommandAndArgs disp ctx commandAndArgs w))
   \<and> snd (MustDispatchCombinedCommandAndArgs disp ctx commandAndArgs w)
       = snd (DispatchCombinedCommandAndArgs disp ctx commandAndArgs w)"
    by (cases "DispatchCombinedCommandAndArgs disp ctx commandAndArgs w")
       (auto simp: MustDispatchCombinedCommandAndArgs_def must_agrees_def split: option.splits)
  have 6: "(is_Panic (fst (MustAddSuperCommand G sdisp superCommand))
        \<longleftrightarrow> isl (fst (AddSuperCommand G sdisp superCommand)))
   \<and> (\<forall>subDisp. fst (AddSuperCommand G sdisp superCommand) = Inr subDisp \<longrightarrow>
         fst (MustAddSuperCommand G sdisp superCommand) = Return subDisp)
   \<and> snd (MustAddSuperCommand G sdisp superCommand) = snd (AddSuperCommand G sdisp superCommand)"
    by (cases "AddSuperCommand G sdisp superCommand")
       (auto simp: MustAddSuperCommand_def split: sum.splits)
  have 7: "must_agrees
        (fst (Super_AddDefaultCommand G B sdisp description commandFunc args resultsHandlers)) ()
        (fst (Super_MustAddDefaultCommand G B sdisp description commandFunc args resultsHandlers))
   \<and> snd (Super_MustAddDefaultCommand G B sdisp description commandFunc args resultsHandlers)
       = snd (Super_AddDefaultCommand G B sdisp description commandFunc args resultsHandlers)"
    by (cases "Super_AddDefaultCommand G B sdisp description commandFunc args resultsHandlers")
       (auto simp: Super_MustAddDefaultCommand_def must_agrees_def split: option.splits)
  have 8: "must_agrees (fst (Super_Dispatch sdisp ctx superCommand command as w)) ()
        (fst (Super_MustDispatch sdisp ctx superCommand command as w))
   \<and> snd (Super_MustDispatch sdisp ctx superCommand command as w)
       = snd (Super_Dispatch sdisp ctx superCommand command as w)"
    by (cases "Super_Dispatch sdisp ctx superCommand command as w")
       (auto simp: Super_MustDispatch_def must_agrees_def split: option.splits)
  have 9: "must_agrees (fst (Super_DispatchDefaultCommand sdisp w)) ()
        (fst (Super_MustDispatchDefaultCommand sdisp w))
   \<and> snd (Super_MustDispatchDefaultCommand sdisp w) = snd (Super_DispatchDefaultCommand sdisp w)"
    by (cases "Super_DispatchDefaultCommand sdisp w")
       (auto simp: Super_MustDispatchDefaultCommand_def must_agrees_def split: option.splits)
  have 10: "must_agrees
        (snd (snd (fst (Super_DispatchCombinedCommandAndArgs sdisp ctx commandAndArgs w))))
        (fst (fst (Super_DispatchCombinedCommandAndArgs sdisp ctx commandAndArgs w)),
         fst (snd (fst (Super_DispatchCombinedCommandAndArgs sdisp ctx commandAndArgs w))))
        (fst (Super_MustDispatchCombinedCommandAndArgs sdisp ctx commandAndArgs w))
   \<and> snd (Super_MustDispatchCombinedCommandAndArgs sdisp ctx commandAndArgs w)
       = snd (Super_DispatchCombinedCommandAndArgs sdisp ctx commandAndArgs w)"
    by (cases "Super_DispatchCombinedCommandAndArgs sdisp ctx commandAndArgs w")
       (auto simp: Super_MustDispatchCombinedCommandAndArgs_def must_agrees_def
          split: option.splits)
  from 1 2 3 4 5 6 7 8 9 10 show ?thesis by blast
qed

theorem Must_variants_panic_iff_error_witness:
  "is_Panic (fst (MustDispatch example_disp Background (str ''fail'') [] example_world))
   \<and> is_Panic (fst (MustAddCommand (\<lambda>r. False) example_binder example_disp (str ''fail'')
                      (str ''again'') None () []))
   \<and> fst (MustDispatchDefaultCommand example_first example_world) = Return ()
   \<and> fst (MustAddSuperCommand (\<lambda>r. False) example_super (str ''git'')) =
       Return (NewStringArgsDispatcher [example_logger])"
proof -
  have d: "fst (Dispatch example_disp Background (str ''fail'') [] example_world) =
      Some (Err (str ''boom''))"
    by (simp add: Dispatch_def example_disp_eq call_stringArgsFunc_def)
  have a: "fst (AddCommand (\<lambda>r. False) example_binder example_disp (str ''fail'')
                  (str ''again'') None () []) = Some (ErrAlreadyAdded (str ''fail''))"
    by (simp add: AddCommand_def example_disp_eq)
  have dd: "fst (DispatchDefaultCommand example_first example_world) = None"
    by (simp add: DispatchDefaultCommand_def Dispatch_def example_first_eq
        call_stringArgsFunc_def)
  have s: "fst (AddSuperCommand (\<lambda>r. False) example_super (str ''git'')) =
      Inr (NewStringArgsDispatcher [example_logger])"
    by (simp add: AddSuperCommand_def example_super_eq checkCommandChars_def IndexFunc_def
        IsSpace_def IsGraphic_def Default_def Let_def)
  note on_disp = Must_variants_panic_iff_error [where G = "\<lambda>r. False" and B = example_binder
      and disp = example_disp and command = "str ''fail''" and description = "str ''again''"
      and commandFunc = None and args = "()" and resultsHandlers = "[]"
      and ctx = Background and as = "[]" and w = example_world
      and sdisp = example_super and superCommand = "str ''git''" and commandAndArgs = "[]"]
  note on_first = Must_variants_panic_iff_error [where G = "\<lambda>r. False"
      and B = example_binder
      and disp = example_first and command = "str ''fail''" and description = "str ''again''"
      and commandFunc = None and args = "()" and resultsHandlers = "[]"
      and ctx = Background and as = "[]" and w = example_world
      and sdisp = example_super and superCommand = "str ''git''" and commandAndArgs = "[]"]
  have "must_agrees (fst (Dispatch example_disp Background (str ''fail'') [] example_world)) ()
      (fst (MustDispatch example_disp Background (str ''fail'') [] example_world))"
    using on_disp by blast
  then have 1: "is_Panic (fst (MustDispatch example_disp Background (str ''fail'') []
      example_world))"
    unfolding must_agrees_def d by simp
  have "must_agrees (fst (AddCommand (\<lambda>r. False) example_binder example_disp (str ''fail'')
                  (str ''again'') None () [])) ()
      (fst (MustAddCommand (\<lambda>r. False) example_binder example_disp (str ''fail'')
                  (str ''again'') None () []))"
    using on_disp by blast
  then have 2: "is_Panic (fst (MustAddCommand (\<lambda>r. False) example_binder example_disp
      (str ''fail'') (str ''again'') None () []))"
    unfolding must_agrees_def a by simp
  have "must_agrees (fst (DispatchDefaultCommand example_first example_world)) ()
      (fst (MustDispatchDefaultCommand example_first example_world))"
    using on_first by blast
  then have 3: "fst (MustDispatchDefaultCommand example_first example_world) = Return ()"
    unfolding must_agrees_def dd by simp
  have "\<forall>subDisp. fst (AddSuperCommand (\<lambda>r. False) example_super (str ''git'')) = Inr subDisp
      \<longrightarrow> fst (MustAddSuperCommand (\<lambda>r. False) example_super (str ''git'')) = Return subDisp"
    using on_disp by blast
  then have 4: "fst (MustAddSuperCommand (\<lambda>r. False) example_super (str ''git'')) =
       Return (NewStringArgsDispatcher [example_logger])"
    unfolding s by simp
  from 1 2 3 4 show ?thesis by blast
qed

subsection \<open>The HTTP adapter\<close>

lemma range_errHandlers_calls:
  "calls (range_errHandlers hs i err w) =
     calls w @ map (\<lambda>j. HandleErrorCall j err) [i ..< i + length hs]"
proof (induction hs arbitrary: i w)
  case Nil
  then show ?case by simp
next
  case (Cons h rest)
  have upt: "[i ..< i + length (h # rest)] = i # [Suc i ..< Suc i + length rest]"
    by (subst upt_rec) simp
  show ?case
    unfolding upt by (simp add: Cons.IH call_HandleError_def)
qed

lemma handleErr_calls:
  "calls (handleErr H err hs w) =
     calls w @ (case err of
                  None \<Rightarrow> []
                | Some e \<Rightarrow>
                    if hs = [] then [httperr_HandleCall e]
                    else map (\<lambda>j. HandleErrorCall j e) [0 ..< length hs])"
  by (cases err) (simp_all add: handleErr_def call_httperr_Handle_def range_errHandlers_calls)

lemma run_cmdFunc_first_call:
  "\<exists>rest. calls (snd (snd (run_cmdFunc CatchPanics H cmdFunc args resultsWriter errHandlers
                              ctx vars w)))
      = calls w @ CmdFuncCall ctx vars # rest"
  by (simp add: run_cmdFunc_def call_cmdFunc_def call_WriteResults_def handleErr_calls
      split: prod.splits outcome.splits option.splits)

lemma range_Query_lookup:
  "range_Query q ks vars k =
     (if k \<in> set ks \<and> Query_get q k \<noteq> [] \<and> Query_get q k ! 0 \<noteq> []
      then Some (Join (Query_get q k) (str '';'')) else vars k)"
  by (induction ks arbitrary: vars) auto

text \<open>
  C8, as the code has it. The query-parameter handler calls the command function first,
  with the mapping \<open>addQueryParams request\<close>. For a key of the query string whose first
  value is not empty, that mapping holds the values of the key joined with \<^verbatim>\<open>;\<close>,
  whatever the path variable of that name was. A key whose first value is empty, and a
  key that is not in the query string, keep what the path variables have.
\<close>

theorem query_values_joined:
  "(\<exists>rest. calls (snd (snd (CommandHandlerWithQueryParams_serve CatchPanics H cmdFunc args
                              resultsWriter errHandlers request w))) =
             calls w @ CmdFuncCall (r_Context request) (addQueryParams request) # rest)
   \<and> (map_of (r_Query request) k = Some vs \<and> vs \<noteq> [] \<and> vs ! 0 \<noteq> [] \<longrightarrow>
        addQueryParams request k = Some (Join vs (str '';'')))
   \<and> (map_of (r_Query request) k = Some vs \<and> (vs = [] \<or> vs ! 0 = []) \<longrightarrow>
        addQueryParams request k = r_Vars request k)
   \<and> (map_of (r_Query request) k = None \<longrightarrow> addQueryParams request k = r_Vars request k)"
proof -
  have "map_of (r_Query request) k = Some vs \<Longrightarrow> k \<in> set (map fst (r_Query request))"
    by (metis map_of_eq_None_iff option.distinct(1) set_map)
  moreover have "map_of (r_Query request) k = None \<Longrightarrow> k \<notin> set (map fst (r_Query request))"
    by (simp add: map_of_eq_None_iff)
  ultimately show ?thesis
    using run_cmdFunc_first_call [of CatchPanics H cmdFunc args resultsWriter errHandlers
        "r_Context request" "addQueryParams request" w]
    by (auto simp: CommandHandlerWithQueryParams_serve_def addQueryParams_def
        range_Query_lookup Query_get_def)
qed

theorem query_values_joined_witness:
  "addQueryParams example_request2 (str ''a'') = Some (str ''x;y'')
   \<and> addQueryParams example_request (str ''a'') = Some (str ''p'')"
  using query_values_joined [of True example_errHandler example_cmdFunc "()" None "[]"
      example_request2 example_hworld "str ''a''" "[str ''x'', str ''y'']"]
    query_values_joined [of True example_errHandler example_cmdFunc "()" None "[]"
      example_request example_hworld "str ''a''" "[[], str ''x'']"]
  by (simp add: example_request2_def example_request_def)

text \<open>
  The claim C8 as it was stated fails on the request \<^verbatim>\<open>/p?a=&a=x\<close>: the key \<^verbatim>\<open>a\<close> is
  in the query string with the values \<^verbatim>\<open>""\<close> and \<^verbatim>\<open>"x"\<close>, which join to \<^verbatim>\<open>";x"\<close>, and the
  command function receives the path variable \<^verbatim>\<open>"p"\<close> for \<^verbatim>\<open>a\<close>.
\<close>

theorem query_first_value_empty_counterexample:
  "map_of (r_Query example_request) (str ''a'') = Some [[], str ''x'']
   \<and> Join [[], str ''x''] (str '';'') = str '';x''
   \<and> r_Vars example_request (str ''a'') = Some (str ''p'')
   \<and> user (snd (snd (CommandHandlerWithQueryParams_serve True example_errHandler
                       example_cmdFunc () None [] example_request example_hworld))) =
       [Some (str ''p'')]"
  by (simp add: example_request_def example_hworld_def example_cmdFunc_def
      CommandHandlerWithQueryParams_serve_def run_cmdFunc_def call_cmdFunc_def handleErr_def
      addQueryParams_def Query_get_def)

text \<open>
  C10. In the request-body handler, when the converter returns a name without an error
  and the path variables already have that name, the handler passes the error
  \<^verbatim>\<open>argument '<name>' already set by request URL path\<close> to \<^verbatim>\<open>handleErr\<close>, which calls every
  error handler with it in order, or \<^verbatim>\<open>httperr.Handle\<close> when there is none, and returns.
  The converter's call and these are all the calls made: the command function and the
  results writer are not called.
\<close>

theorem body_arg_already_set:
  assumes "bodyConverter request (user w) = ((name, value, None), u)"
    and "r_Vars request name \<noteq> None"
  shows "fst (CommandHandlerRequestBodyArg_serve CatchPanics H bodyConverter cmdFunc args
                resultsWriter errHandlers request w) = Return ()
       \<and> calls (snd (snd (CommandHandlerRequestBodyArg_serve CatchPanics H bodyConverter cmdFunc
                              args resultsWriter errHandlers request w))) =
           calls w @ RequestBodyToArgCall #
             (if errHandlers = [] then [httperr_HandleCall (ErrArgAlreadySet name)]
              else map (\<lambda>i. HandleErrorCall i (ErrArgAlreadySet name))
                     [0 ..< length errHandlers])"
  using assms
  by (simp add: CommandHandlerRequestBodyArg_serve_def call_RequestBodyToArg_def handleErr_calls)

theorem body_arg_already_set_witness:
  "fst (CommandHandlerRequestBodyArg_serve True example_errHandler (RequestBodyAsArg (str ''a''))
          example_cmdFunc () None [example_errHandler] example_request example_hworld) = Return ()
   \<and> calls (snd (snd (CommandHandlerRequestBodyArg_serve True example_errHandler
                          (RequestBodyAsArg (str ''a'')) example_cmdFunc () None
                          [example_errHandler] example_request example_hworld))) =
       [RequestBodyToArgCall, HandleErrorCall 0 (ErrArgAlreadySet (str ''a''))]"
  using body_arg_already_set [of "RequestBodyAsArg (str ''a'')" example_request example_hworld
      "str ''a''" "str ''b''" "[]" True example_errHandler example_cmdFunc "()" None
      "[example_errHandler]"]
  by (simp add: RequestBodyAsArg_def example_request_def example_hworld_def)

end
